theory Spec2Isabelle
  imports Main
begin

section \<open>Data model\<close>

subsection \<open>Decoded JSON\<close>

text \<open>
  The values that \<^verbatim>\<open>encoding/json\<close> stores in an \<^verbatim>\<open>interface{}\<close>:
  \<^verbatim>\<open>nil\<close>, \<^verbatim>\<open>bool\<close>, \<^verbatim>\<open>float64\<close>, \<^verbatim>\<open>string\<close>,
  \<^verbatim>\<open>[]interface{}\<close> and \<^verbatim>\<open>map[string]interface{}\<close>. The code never looks at the
  value of a number, only at its dynamic type, so the payload of \<open>JNumber\<close> is an integer.
  An object is an association list read as the map \<open>map_of\<close> of it.
\<close>

datatype json =
    JNull
  | JBool bool
  | JNumber int
  | JString string
  | JArray "json list"
  | JObject "(string \<times> json) list"

type_synonym jmap = "(string \<times> json) list"

text \<open>
  \<^verbatim>\<open>reflect.TypeOf(x).String()\<close>. \<^verbatim>\<open>reflect.TypeOf(nil)\<close> is the nil \<^verbatim>\<open>Type\<close>, and calling
  \<^verbatim>\<open>String()\<close> on it is a nil dereference: \<open>None\<close> stands for that panic.
\<close>

fun reflect_TypeOf_String :: "json \<Rightarrow> string option" where
  "reflect_TypeOf_String JNull = None"
| "reflect_TypeOf_String (JBool b) = Some ''bool''"
| "reflect_TypeOf_String (JNumber n) = Some ''float64''"
| "reflect_TypeOf_String (JString s) = Some ''string''"
| "reflect_TypeOf_String (JArray xs) = Some ''[]interface {}''"
| "reflect_TypeOf_String (JObject kvs) = Some ''map[string]interface {}''"

text \<open>
  The entries of a Go map given as an association list: one entry per key, the first
  binding of a key being the one \<open>map_of\<close> returns. \<^verbatim>\<open>len(m)\<close> is the length of this list
  and \<^verbatim>\<open>for _, v := range m\<close> runs over it.
\<close>

fun entries :: "('k \<times> 'v) list \<Rightarrow> ('k \<times> 'v) list" where
  "entries [] = []"
| "entries (kv # rest) = kv # entries (filter (\<lambda>kv'. fst kv' \<noteq> fst kv) rest)"

subsection \<open>Errors and results\<close>

text \<open>
  \<open>ServerError msg\<close> is \<^verbatim>\<open>utils.ConstructServerError(msg)\<close>; \<open>ExternalError\<close> is an error value
  made outside this package (the transport, the operating system, the JSON decoder,
  \<^verbatim>\<open>utils.GenerateError\<close>); \<open>RegistryError code msg\<close> is the error the specification names
  for a non-success status, carrying the status code and the message. A Go function that
  returns \<^verbatim>\<open>(value, error)\<close> with a meaningful value beside the error is modelled with a
  pair; one that returns either a value or an error, and may also panic, with \<open>result\<close>.
\<close>

datatype error = ServerError string | ExternalError string | RegistryError int string

datatype 'a result = Ok 'a | Err error | Panic string

subsection \<open>HTTP messages, the registry handle, the world\<close>

record request =
  reqMethod :: string
  reqURL :: string
  reqHeaders :: "(string \<times> string) list"
  reqBody :: string

text \<open>A response body is a reader: its bytes, and whether \<^verbatim>\<open>Close()\<close> was called on it.\<close>

record body =
  bytes :: string
  closed :: bool

record response =
  StatusCode :: int
  Status :: string
  Header :: "(string \<times> string list) list"
  Body :: body

text \<open>The fields of \<^verbatim>\<open>rest.RestContext\<close> that this package reads through its getters.\<close>

record registry =
  scheme :: string
  hostname :: string
  port :: int
  userId :: string
  password :: string

text \<open>
  A file-system node. The file system is an association list from path to node, in
  creation order.
\<close>

datatype node = Dir | File string

text \<open>
  The state the operations act on: the local file system and the requests handed to the
  transport so far, oldest first.
\<close>

record world =
  fs :: "(string \<times> node) list"
  sent :: "request list"

text \<open>One entry of a tar stream: its header name, and its content or the error reading it.\<close>

record tar_entry =
  entryName :: string
  entryData :: "error + string"

text \<open>
  The collaborators that live outside this package, taken as parameters:
  \<^item> \<open>net\<close>: the registry seen through the transport. Given the requests sent before and
    the request sent now it yields a transport error or the response;
  \<^item> \<open>GenerateError\<close>: \<^verbatim>\<open>utils.GenerateError(statusCode, msg)\<close>, \<open>None\<close> for \<^verbatim>\<open>nil\<close>;
  \<^item> \<open>ParseResponseBodyToMap\<close>: \<^verbatim>\<open>rest.ParseResponseBodyToMap(body)\<close>;
  \<^item> \<open>NewRequest_error\<close>: the error of \<^verbatim>\<open>http.NewRequest(method, url, _)\<close>, if any;
  \<^item> \<open>sha256_Sum\<close>: the hash that \<^verbatim>\<open>utils.ComputeFileDigest(sha256.New(), path)\<close> applies
    to the bytes of the file;
  \<^item> \<open>MakeTempDir\<close>: the path \<^verbatim>\<open>utils.MakeTempDir()\<close> picks, or its error;
  \<^item> \<open>tar_Reader\<close>: the entries \<^verbatim>\<open>tar.NewReader\<close> yields for the bytes of an archive, and
    the error that ends the stream (\<open>None\<close> for \<^verbatim>\<open>io.EOF\<close>);
  \<^item> \<open>json_Unmarshal\<close>: \<^verbatim>\<open>json.Unmarshal(bytes, &obj)\<close>.
\<close>

record env =
  net :: "request list \<Rightarrow> request \<Rightarrow> error + response"
  GenerateError :: "int \<Rightarrow> string \<Rightarrow> error option"
  ParseResponseBodyToMap :: "body \<Rightarrow> error + jmap"
  NewRequest_error :: "string \<Rightarrow> string \<Rightarrow> error option"
  sha256_Sum :: "string \<Rightarrow> string"
  MakeTempDir :: "world \<Rightarrow> error + string"
  tar_Reader :: "string \<Rightarrow> tar_entry list \<times> error option"
  json_Unmarshal :: "string \<Rightarrow> error + json"

section \<open>The transport\<close>

text \<open>
  \<^verbatim>\<open>registry.GetHttpClient().Do(request)\<close>: the request is recorded and the registry answers.
\<close>

definition Do :: "env \<Rightarrow> world \<Rightarrow> request \<Rightarrow> (error + response) \<times> world" where
  "Do E w req = (net E (sent w) req, w\<lparr>sent := sent w @ [req]\<rparr>)"

text \<open>
  The \<^verbatim>\<open>SendBasic...\<close> methods of \<^verbatim>\<open>rest.RestContext\<close> are handed a method and a URI relative
  to the registry; what they add (scheme, host, credentials) is theirs, and the request is
  recorded as it was handed over.
\<close>

definition basicRequest :: "string \<Rightarrow> string \<Rightarrow> request" where
  "basicRequest m uri = \<lparr>reqMethod = m, reqURL = uri, reqHeaders = [], reqBody = ''''\<rparr>"

definition SendBasicGet :: "env \<Rightarrow> world \<Rightarrow> string \<Rightarrow> (error + response) \<times> world" where
  "SendBasicGet E w uri = Do E w (basicRequest ''GET'' uri)"

definition SendBasicHead :: "env \<Rightarrow> world \<Rightarrow> string \<Rightarrow> (error + response) \<times> world" where
  "SendBasicHead E w uri = Do E w (basicRequest ''HEAD'' uri)"

definition SendBasicDelete :: "env \<Rightarrow> world \<Rightarrow> string \<Rightarrow> (error + response) \<times> world" where
  "SendBasicDelete E w uri = Do E w (basicRequest ''DELETE'' uri)"

text \<open>\<^verbatim>\<open>SendBasicFormPost(uri, names, values)\<close>; this package only calls it with no fields.\<close>

definition SendBasicFormPost ::
  "env \<Rightarrow> world \<Rightarrow> string \<Rightarrow> string list \<Rightarrow> string list \<Rightarrow> (error + response) \<times> world" where
  "SendBasicFormPost E w uri names vals = Do E w (basicRequest ''POST'' uri)"

section \<open>Existence probes\<close>

definition ImageExists ::
  "env \<Rightarrow> world \<Rightarrow> string \<Rightarrow> string \<Rightarrow> (bool \<times> error option) \<times> world" where
  "ImageExists E w repoName tag =
     (let uri = ''v2/'' @ repoName @ ''/manifests/'' @ tag;
          (r, w') = SendBasicHead E w uri
      in case r of
           Inl err \<Rightarrow> ((False, Some err), w')
         | Inr response \<Rightarrow>
             if StatusCode response = 404 then ((False, None), w')
             else (case GenerateError E (StatusCode response)
                          (Status response @ ''; while checking if image exists'') of
                     Some err \<Rightarrow> ((False, Some err), w')
                   | None \<Rightarrow> ((True, None), w')))"

definition LayerExistsInRepo ::
  "env \<Rightarrow> world \<Rightarrow> string \<Rightarrow> string \<Rightarrow> (bool \<times> error option) \<times> world" where
  "LayerExistsInRepo E w repoName digest =
     (let uri = ''v2/'' @ repoName @ ''/blobs/'' @ digest;
          (r, w') = SendBasicHead E w uri
      in case r of
           Inl err \<Rightarrow> ((False, Some err), w')
         | Inr response \<Rightarrow>
             if StatusCode response = 404 then ((False, None), w')
             else (case GenerateError E (StatusCode response)
                          (Status response @ ''; while checking if layer exists'') of
                     Some err \<Rightarrow> ((False, Some err), w')
                   | None \<Rightarrow> ((True, None), w')))"

section \<open>Reading a manifest\<close>

text \<open>
  The loop of \<^verbatim>\<open>parseManifest\<close> over the elements of \<^verbatim>\<open>fsLayers\<close>: every element must be
  an object. For an element that is not, the message is built from
  \<^verbatim>\<open>reflect.TypeOf(obj).String()\<close>, which panics when the element is \<^verbatim>\<open>null\<close>.
\<close>

fun parseManifest_layers :: "jmap list \<Rightarrow> json list \<Rightarrow> jmap list result" where
  "parseManifest_layers layerAr [] = Ok layerAr"
| "parseManifest_layers layerAr (JObject m # rest) = parseManifest_layers (layerAr @ [m]) rest"
| "parseManifest_layers layerAr (obj # rest) =
     (case reflect_TypeOf_String obj of
        None \<Rightarrow> Panic ''invalid memory address or nil pointer dereference''
      | Some t \<Rightarrow> Err (ServerError (''Type of layer object is '' @ t)))"

definition parseManifest :: "env \<Rightarrow> body \<Rightarrow> jmap list result" where
  "parseManifest E b =
     (case ParseResponseBodyToMap E b of
        Inl err \<Rightarrow> Err err
      | Inr responseMap \<Rightarrow>
          (case map_of responseMap ''fsLayers'' of
             None \<Rightarrow> Err (ServerError ''Did not find fsLayers field in body'')
           | Some JNull \<Rightarrow> Err (ServerError ''Did not find fsLayers field in body'')
           | Some (JArray layerArObj) \<Rightarrow> parseManifest_layers [] layerArObj
           | Some layersObj \<Rightarrow>
               (case reflect_TypeOf_String layersObj of
                  None \<Rightarrow> Panic ''invalid memory address or nil pointer dereference''
                | Some t \<Rightarrow> Err (ServerError (''Type of layer description is '' @ t)))))"

text \<open>
  \<^verbatim>\<open>GetImageInfo\<close>. The last step, \<^verbatim>\<open>headers["Docker-Content-Digest"][0]\<close>, indexes the
  value list of the header without looking at its length: a missing key gives the nil
  slice, and index 0 of it is a run-time panic.
\<close>

definition GetImageInfo ::
  "env \<Rightarrow> world \<Rightarrow> string \<Rightarrow> string \<Rightarrow> (string \<times> jmap list) result \<times> world" where
  "GetImageInfo E w repoName tag =
     (let uri = ''v2/'' @ repoName @ ''/manifests/'' @ tag;
          (r, w') = SendBasicGet E w uri
      in case r of
           Inl err \<Rightarrow> (Err err, w')
         | Inr resp \<Rightarrow>
             (case GenerateError E (StatusCode resp) (Status resp @ ''; while getting image info'') of
                Some err \<Rightarrow> (Err err, w')
              | None \<Rightarrow>
                  (case parseManifest E (Body resp) of
                     Panic p \<Rightarrow> (Panic p, w')
                   | Err err \<Rightarrow> (Err err, w')
                   | Ok layerAr \<Rightarrow>
                       (case map_of (Header resp) ''Docker-Content-Digest'' of
                          None \<Rightarrow> (Panic ''index out of range'', w')
                        | Some [] \<Rightarrow> (Panic ''index out of range'', w')
                        | Some (digest # others) \<Rightarrow> (Ok (digest, layerAr), w')))))"

section \<open>Deleting an image\<close>

text \<open>
  The loop of \<^verbatim>\<open>DeleteImage\<close> over the layers. \<open>None\<close> is the loop running to its end.
\<close>

fun DeleteImage_layers ::
  "env \<Rightarrow> world \<Rightarrow> string \<Rightarrow> jmap list \<Rightarrow> unit result option \<times> world" where
  "DeleteImage_layers E w repoName [] = (None, w)"
| "DeleteImage_layers E w repoName (layerDesc # rest) =
     (case map_of layerDesc ''blobSum'' of
        None \<Rightarrow> (Some (Err (ServerError ''Did not find blobSum field in response for layer'')), w)
      | Some JNull \<Rightarrow>
          (Some (Err (ServerError ''Did not find blobSum field in response for layer'')), w)
      | Some (JString digest) \<Rightarrow>
          (let uri = ''v2/'' @ repoName @ ''/blobs/'' @ digest;
               (r, w') = SendBasicDelete E w uri
           in case r of
                Inl err \<Rightarrow> (Some (Err err), w')
              | Inr response \<Rightarrow>
                  (case GenerateError E (StatusCode response)
                          (Status response @ ''; while deleting layer'') of
                     Some err \<Rightarrow> (Some (Err err), w')
                   | None \<Rightarrow> DeleteImage_layers E w' repoName rest))
      | Some layerDigest \<Rightarrow>
          (case reflect_TypeOf_String layerDigest of
             None \<Rightarrow> (Some (Panic ''invalid memory address or nil pointer dereference''), w)
           | Some t \<Rightarrow>
               (Some (Err (ServerError (''blogSum field is not a string - it is a '' @ t))), w)))"

text \<open>
  \<^verbatim>\<open>DeleteImage\<close>. The body of the manifest response is closed before \<^verbatim>\<open>parseManifest\<close>
  reads it, and the response to the final DELETE of the manifest is only checked for a
  transport error: its status code is not looked at.
\<close>

definition DeleteImage :: "env \<Rightarrow> world \<Rightarrow> string \<Rightarrow> string \<Rightarrow> unit result \<times> world" where
  "DeleteImage E w repoName tag =
     (let uri = ''v2/'' @ repoName @ ''/manifests/'' @ tag;
          (r, w1) = SendBasicGet E w uri
      in case r of
           Inl err \<Rightarrow> (Err err, w1)
         | Inr resp \<Rightarrow>
             (let closedBody = (Body resp)\<lparr>closed := True\<rparr>
              in case GenerateError E (StatusCode resp) (Status resp @ ''; while deleting image'') of
                   Some err \<Rightarrow> (Err err, w1)
                 | None \<Rightarrow>
                     (case parseManifest E closedBody of
                        Panic p \<Rightarrow> (Panic p, w1)
                      | Err err \<Rightarrow> (Err err, w1)
                      | Ok layerAr \<Rightarrow>
                          (case DeleteImage_layers E w1 repoName layerAr of
                             (Some stop, w2) \<Rightarrow> (stop, w2)
                           | (None, w2) \<Rightarrow>
                               (let uri = ''v2/'' @ repoName @ ''/manifests/'' @ tag;
                                    (r', w3) = SendBasicDelete E w2 uri
                                in case r' of
                                     Inl err \<Rightarrow> (Err err, w3)
                                   | Inr resp' \<Rightarrow> (Ok (), w3))))))"

section \<open>Text encodings\<close>

text \<open>\<^verbatim>\<open>fmt.Sprintf("%d", n)\<close>: the decimal digits of \<open>n\<close>, with a minus sign below zero.\<close>

function showNat :: "nat \<Rightarrow> string" where
  "showNat n =
     (if n < 10 then [''0123456789'' ! n]
      else showNat (n div 10) @ [''0123456789'' ! (n mod 10)])"
  by pat_completeness auto
termination
  by (relation "measure (\<lambda>n. n)") auto

definition showInt :: "int \<Rightarrow> string" where
  "showInt i = (if i < 0 then ''-'' @ showNat (nat (- i)) else showNat (nat i))"

text \<open>\<^verbatim>\<open>hex.EncodeToString\<close>: two lower-case hexadecimal digits per byte.\<close>

definition hexByte :: "char \<Rightarrow> string" where
  "hexByte c =
     [''0123456789abcdef'' ! (of_char c div 16), ''0123456789abcdef'' ! (of_char c mod 16)]"

definition hex_EncodeToString :: "string \<Rightarrow> string" where
  "hex_EncodeToString bs = concat (map hexByte bs)"

text \<open>
  \<^verbatim>\<open>base64.StdEncoding.EncodeToString\<close> (RFC 4648): three bytes give four characters of the
  alphabet; a last group of one or two bytes is padded with \<^verbatim>\<open>=\<close>.
\<close>

definition base64_alphabet :: string where
  "base64_alphabet = ''ABCDEFGHIJKLMNOPQRSTUVWXYZabcdefghijklmnopqrstuvwxyz0123456789+/''"

definition b64 :: "nat \<Rightarrow> char" where
  "b64 k = base64_alphabet ! (k mod 64)"

fun base64_EncodeToString :: "string \<Rightarrow> string" where
  "base64_EncodeToString [] = []"
| "base64_EncodeToString [a] =
     (let n = of_char a * 65536
      in [b64 (n div 262144), b64 (n div 4096), CHR ''='', CHR ''=''])"
| "base64_EncodeToString [a, b] =
     (let n = of_char a * 65536 + of_char b * 256
      in [b64 (n div 262144), b64 (n div 4096), b64 (n div 64), CHR ''=''])"
| "base64_EncodeToString (a # b # c # rest) =
     (let n = of_char a * 65536 + of_char b * 256 + of_char c
      in [b64 (n div 262144), b64 (n div 4096), b64 (n div 64), b64 n]
         @ base64_EncodeToString rest)"

section \<open>Pushing a layer\<close>

text \<open>\<^verbatim>\<open>os.Open(path)\<close> followed by reading: the bytes of a regular file, or the error.\<close>

definition os_Open :: "world \<Rightarrow> string \<Rightarrow> error + string" where
  "os_Open w path =
     (case map_of (fs w) path of
        Some (File bs) \<Rightarrow> Inr bs
      | Some Dir \<Rightarrow> Inl (ExternalError (''read '' @ path @ '': is a directory''))
      | None \<Rightarrow> Inl (ExternalError (''open '' @ path @ '': no such file or directory'')))"

text \<open>\<^verbatim>\<open>utils.ComputeFileDigest(sha256.New(), path)\<close>: the hash of the bytes of the file.\<close>

definition ComputeFileDigest :: "env \<Rightarrow> world \<Rightarrow> string \<Rightarrow> error + string" where
  "ComputeFileDigest E w path =
     (case os_Open w path of Inl err \<Rightarrow> Inl err | Inr bs \<Rightarrow> Inr (sha256_Sum E bs))"

text \<open>The header map that \<^verbatim>\<open>PushLayer\<close> writes twice, once per request it builds.\<close>

definition PushLayer_headers :: "int \<Rightarrow> string \<Rightarrow> (string \<times> string) list" where
  "PushLayer_headers fileSize authHeaderValue =
     [(''Content-Length'', showInt fileSize),
      (''Content-Range'', ''0-'' @ showInt (fileSize - 1)),
      (''Content-Type'', ''application/octet-stream''),
      (''Authorization'', authHeaderValue)]"

text \<open>
  The second half of \<^verbatim>\<open>PushLayer\<close>, from the opening of the layer file on. The PATCH
  request is built and given its headers, but the block that submits it is commented out
  in the source: \<open>request\<close> is then overwritten by the PUT request, and only that one is
  handed to the HTTP client. What remains of the PATCH is the error \<^verbatim>\<open>http.NewRequest\<close>
  may return for it. \<^verbatim>\<open>layerFile.Stat()\<close> on the file just opened is taken to succeed, and
  the response body read after a failed PUT is only printed.
\<close>

definition PushLayer_upload ::
  "env \<Rightarrow> registry \<Rightarrow> world \<Rightarrow> string \<Rightarrow> string \<Rightarrow> string \<Rightarrow> (string \<times> error option) \<times> world" where
  "PushLayer_upload E reg w layerFilePath digestString location =
     (case os_Open w layerFilePath of
        Inl err \<Rightarrow> ((digestString, Some err), w)
      | Inr layerFile \<Rightarrow>
          (let url = location;
               encoded = base64_EncodeToString (userId reg @ '':'' @ password reg);
               authHeaderValue = ''Basic '' @ encoded;
               fileSize = int (length layerFile);
               headers = PushLayer_headers fileSize authHeaderValue
           in case NewRequest_error E ''PATCH'' url of
                Some err \<Rightarrow> ((digestString, Some err), w)
              | None \<Rightarrow>
                  (let url = location @ ''&digest=sha256:'' @ digestString
                   in case NewRequest_error E ''PUT'' url of
                        Some err \<Rightarrow> ((digestString, Some err), w)
                      | None \<Rightarrow>
                          (let headers = PushLayer_headers fileSize authHeaderValue;
                               request = \<lparr>reqMethod = ''PUT'', reqURL = url,
                                          reqHeaders = headers, reqBody = layerFile\<rparr>;
                               (r, w') = Do E w request
                           in case r of
                                Inl err \<Rightarrow> ((digestString, Some err), w')
                              | Inr response \<Rightarrow>
                                  ((digestString,
                                    GenerateError E (StatusCode response) (Status response)),
                                   w')))))"

text \<open>
  \<^verbatim>\<open>PushLayer\<close>: digest of the file, existence probe, POST for the upload location, then the
  upload above.
\<close>

definition PushLayer ::
  "env \<Rightarrow> registry \<Rightarrow> world \<Rightarrow> string \<Rightarrow> string \<Rightarrow> (string \<times> error option) \<times> world" where
  "PushLayer E reg w layerFilePath repoName =
     (case ComputeFileDigest E w layerFilePath of
        Inl err \<Rightarrow> (('''', Some err), w)
      | Inr digest \<Rightarrow>
          (let digestString = hex_EncodeToString digest;
               ((exists, err), w1) = LayerExistsInRepo E w repoName digestString
           in if err \<noteq> None then ((digestString, err), w1)
              else if exists then ((digestString, None), w1)
              else
                (let uri = ''v2/'' @ repoName @ ''/blobs/uploads/'';
                     (r, w2) = SendBasicFormPost E w1 uri [] []
                 in case r of
                      Inl err \<Rightarrow> ((digestString, Some err), w2)
                    | Inr response \<Rightarrow>
                        (case GenerateError E (StatusCode response)
                                (Status response @ ''; while starting layer upload'') of
                           Some err \<Rightarrow> ((digestString, Some err), w2)
                         | None \<Rightarrow>
                             (case map_of (Header response) ''Location'' of
                                None \<Rightarrow>
                                  ((digestString, Some (ServerError ''No Location header'')), w2)
                              | Some locations \<Rightarrow>
                                  if length locations \<noteq> 1
                                  then ((digestString,
                                         Some (ServerError ''Unexpected Location header'')), w2)
                                  else PushLayer_upload E reg w2 layerFilePath digestString
                                         (hd locations))))))"

section \<open>Publishing a manifest\<close>

text \<open>
  The loop of \<^verbatim>\<open>PushManifest\<close> that appends one \<^verbatim>\<open>blobSum\<close> object per layer digest, with a
  comma and a line feed before every object but the first; \<open>i\<close> is the loop index.
\<close>

fun PushManifest_layers :: "string \<Rightarrow> nat \<Rightarrow> string list \<Rightarrow> string" where
  \<open>PushManifest_layers manifest i [] = manifest\<close>
| \<open>PushManifest_layers manifest i (layerDigestString # rest) =
     PushManifest_layers
       ((if i > 0 then manifest @ [CHR '','', CHR 0x0A] else manifest)
          @ ''{"blobSum": "sha256:'' @ layerDigestString @ ''"}'')
       (i + 1) rest\<close>

definition PushManifest_body :: "string \<Rightarrow> string \<Rightarrow> string list \<Rightarrow> string" where
  \<open>PushManifest_body repoName tag layerDigestStrings =
     PushManifest_layers
       (''{"name": "'' @ repoName @ ''", "tag": "'' @ tag @ ''", "fsLayers": ['')
       0 layerDigestStrings
     @ '']}''\<close>

definition PushManifest_url :: "registry \<Rightarrow> string \<Rightarrow> string \<Rightarrow> string" where
  "PushManifest_url reg repoName tag =
     (let uri = ''v2/'' @ repoName @ ''/manifests/'' @ tag;
          url = scheme reg @ ''://'' @ hostname reg;
          url = (if port reg \<noteq> 0 then url @ '':'' @ showInt (port reg) else url)
      in url @ ''/'' @ uri)"

text \<open>
  \<^verbatim>\<open>PushManifest\<close>. The parameter \<open>imageDigestString\<close> only occurs in commented-out lines
  of the source.
\<close>

definition PushManifest ::
  "env \<Rightarrow> registry \<Rightarrow> world \<Rightarrow> string \<Rightarrow> string \<Rightarrow> string \<Rightarrow> string list
     \<Rightarrow> error option \<times> world" where
  "PushManifest E reg w repoName tag imageDigestString layerDigestStrings =
     (let url = PushManifest_url reg repoName tag;
          manifest = PushManifest_body repoName tag layerDigestStrings;
          encoded = base64_EncodeToString (userId reg @ '':'' @ password reg);
          authHeaderValue = ''Basic '' @ encoded;
          headers = [(''Content-Length'', showInt (int (length manifest))),
                     (''Content-Type'', ''application/json; charset=utf-8''),
                     (''Authorization'', authHeaderValue)]
      in case NewRequest_error E ''PUT'' url of
           Some err \<Rightarrow> (Some err, w)
         | None \<Rightarrow>
             (let request = \<lparr>reqMethod = ''PUT'', reqURL = url, reqHeaders = headers,
                             reqBody = manifest\<rparr>;
                  (r, w') = Do E w request
              in case r of
                   Inl err \<Rightarrow> (Some err, w')
                 | Inr response \<Rightarrow>
                     (GenerateError E (StatusCode response)
                        (Status response @ ''; while putting manifest''), w')))"

section \<open>Pushing an image archive\<close>

subsection \<open>The local file system\<close>

text \<open>
  Paths are compared as written, apart from one trailing slash: the names in an archive
  are taken to have no \<^verbatim>\<open>.\<close>, \<^verbatim>\<open>..\<close> or empty components.
\<close>

definition stripSlash :: "string \<Rightarrow> string" where
  "stripSlash p = (if p \<noteq> [] \<and> last p = CHR ''/'' then butlast p else p)"

definition parentDir :: "string \<Rightarrow> string" where
  "parentDir p = rev (drop 1 (dropWhile (\<lambda>c. c \<noteq> CHR ''/'') (rev p)))"

definition baseName :: "string \<Rightarrow> string" where
  "baseName p = rev (takeWhile (\<lambda>c. c \<noteq> CHR ''/'') (rev p))"

text \<open>\<^verbatim>\<open>strings.HasSuffix(s, suffix)\<close>.\<close>

definition HasSuffix :: "string \<Rightarrow> string \<Rightarrow> bool" where
  "HasSuffix s suf = (length suf \<le> length s \<and> drop (length s - length suf) s = suf)"

text \<open>\<^verbatim>\<open>os.Mkdir(name, 0770)\<close>: the path must be new and its parent a directory.\<close>

definition os_Mkdir :: "world \<Rightarrow> string \<Rightarrow> error + world" where
  "os_Mkdir w name =
     (let p = stripSlash name
      in case map_of (fs w) p of
           Some n \<Rightarrow> Inl (ExternalError (''mkdir '' @ name @ '': file exists''))
         | None \<Rightarrow>
             (case map_of (fs w) (parentDir p) of
                Some Dir \<Rightarrow> Inr (w\<lparr>fs := fs w @ [(p, Dir)]\<rparr>)
              | Some (File bs) \<Rightarrow> Inl (ExternalError (''mkdir '' @ name @ '': not a directory''))
              | None \<Rightarrow>
                  Inl (ExternalError (''mkdir '' @ name @ '': no such file or directory''))))"

text \<open>
  \<^verbatim>\<open>os.OpenFile(filename, os.O_CREATE | os.O_RDWR, 0770)\<close>: an existing file is opened as
  it is (there is no \<^verbatim>\<open>O_TRUNC\<close>), a missing one is created empty in an existing directory.
\<close>

definition os_OpenFile :: "world \<Rightarrow> string \<Rightarrow> error + world" where
  "os_OpenFile w filename =
     (case map_of (fs w) filename of
        Some Dir \<Rightarrow> Inl (ExternalError (''open '' @ filename @ '': is a directory''))
      | Some (File bs) \<Rightarrow> Inr w
      | None \<Rightarrow>
          (case map_of (fs w) (parentDir filename) of
             Some Dir \<Rightarrow> Inr (w\<lparr>fs := fs w @ [(filename, File '''')]\<rparr>)
           | Some (File bs) \<Rightarrow> Inl (ExternalError (''open '' @ filename @ '': not a directory''))
           | None \<Rightarrow>
               Inl (ExternalError (''open '' @ filename @ '': no such file or directory''))))"

text \<open>
  \<^verbatim>\<open>io.Copy(outfile, reader)\<close> on a file just opened: the data overwrite the file from
  offset 0, and what the file held beyond their length stays.
\<close>

definition io_Copy :: "world \<Rightarrow> string \<Rightarrow> string \<Rightarrow> world" where
  "io_Copy w filename data =
     w\<lparr>fs := map (\<lambda>(p, n). case n of
                      File old \<Rightarrow> if p = filename then (p, File (data @ drop (length data) old))
                                  else (p, n)
                    | Dir \<Rightarrow> (p, n))
                (fs w)\<rparr>"

text \<open>
  \<^verbatim>\<open>os.Open(dir)\<close> and \<^verbatim>\<open>Readdirnames(0)\<close>: the names of the children of a directory. The
  model lists them in creation order; the real order is that of the file system.
\<close>

definition Readdirnames :: "world \<Rightarrow> string \<Rightarrow> error + string list" where
  "Readdirnames w dir =
     (case map_of (fs w) dir of
        Some Dir \<Rightarrow> Inr (map (\<lambda>(p, n). baseName p) (filter (\<lambda>(p, n). parentDir p = dir) (fs w)))
      | Some (File bs) \<Rightarrow> Inl (ExternalError (''readdirent '' @ dir @ '': not a directory''))
      | None \<Rightarrow> Inl (ExternalError (''open '' @ dir @ '': no such file or directory'')))"

text \<open>\<^verbatim>\<open>os.RemoveAll(path)\<close>: the path and everything below it is gone.\<close>

definition os_RemoveAll :: "world \<Rightarrow> string \<Rightarrow> world" where
  "os_RemoveAll w path =
     w\<lparr>fs := filter (\<lambda>(p, n). p \<noteq> path \<and> take (length path + 1) p \<noteq> path @ ''/'') (fs w)\<rparr>"

subsection \<open>Unpacking the archive\<close>

text \<open>
  The loop of \<^verbatim>\<open>PushImage\<close> over the tar entries. \<open>tarErr\<close> is what \<^verbatim>\<open>tarReader.Next()\<close>
  returns after the last entry: \<open>None\<close> for \<^verbatim>\<open>io.EOF\<close>, which ends the loop, or an error.
\<close>

fun PushImage_unpack ::
  "world \<Rightarrow> string \<Rightarrow> tar_entry list \<Rightarrow> error option \<Rightarrow> error option \<times> world" where
  "PushImage_unpack w tempDirPath [] tarErr = (tarErr, w)"
| "PushImage_unpack w tempDirPath (header # rest) tarErr =
     (if HasSuffix (entryName header) ''/'' then
        (let dirname = tempDirPath @ ''/'' @ entryName header
         in case os_Mkdir w dirname of
              Inl err \<Rightarrow> (Some err, w)
            | Inr w' \<Rightarrow> PushImage_unpack w' tempDirPath rest tarErr)
      else if entryName header = ''repositories'' \<or> HasSuffix (entryName header) ''/layer.tar'' then
        (let filename = tempDirPath @ ''/'' @ entryName header
         in case os_OpenFile w filename of
              Inl err \<Rightarrow> (Some err, w)
            | Inr w1 \<Rightarrow>
                (case entryData header of
                   Inl err \<Rightarrow> (Some err, w1)
                 | Inr data \<Rightarrow>
                     (let w2 = io_Copy w1 filename data;
                          nWritten = length data
                      in if nWritten = 0
                         then (Some (ServerError (''No data written to '' @ filename)), w2)
                         else PushImage_unpack w2 tempDirPath rest tarErr)))
      else PushImage_unpack w tempDirPath rest tarErr)"

subsection \<open>The \<^verbatim>\<open>repositories\<close> index\<close>

text \<open>The inner loop over the tag map: every value must be a string.\<close>

fun PushImage_tags :: "string \<Rightarrow> jmap \<Rightarrow> error + string" where
  "PushImage_tags imageDigest [] = Inr imageDigest"
| "PushImage_tags imageDigest ((t, JString tagDigest) # rest) = PushImage_tags tagDigest rest"
| "PushImage_tags imageDigest ((t, tagDigestObj) # rest) =
     Inl (ServerError ''Digest is not a string'')"

text \<open>The outer loop over the repository map: every value is a tag map with one entry.\<close>

fun PushImage_repos :: "string \<Rightarrow> jmap \<Rightarrow> error + string" where
  "PushImage_repos imageDigest [] = Inr imageDigest"
| "PushImage_repos imageDigest ((rName, JObject tagMap) # rest) =
     (if length (entries tagMap) = 0
      then Inl (ServerError ''No entries found in tag map for repo'')
      else if length (entries tagMap) > 1
      then Inl (ServerError ''More than one entry found in tag map for repo'')
      else (case PushImage_tags imageDigest (entries tagMap) of
              Inl err \<Rightarrow> Inl err
            | Inr tagDigest \<Rightarrow> PushImage_repos tagDigest rest))"
| "PushImage_repos imageDigest ((rName, tagObj) # rest) =
     Inl (ServerError ''repository json does not translate to a map[string]interface'')"

text \<open>The checks on the decoded index; the result is \<open>imageDigest\<close>.\<close>

fun PushImage_index :: "json \<Rightarrow> error + string" where
  "PushImage_index (JObject repositoriesMap) =
     (if length (entries repositoriesMap) = 0
      then Inl (ServerError ''No entries found in repository map for image'')
      else if length (entries repositoriesMap) > 1
      then Inl (ServerError ''More than one entry found in repository map for image'')
      else PushImage_repos '''' (entries repositoriesMap))"
| "PushImage_index obj =
     Inl (ServerError ''repositories file json does not translate to a map[string]interface'')"

subsection \<open>The layers and the whole operation\<close>

text \<open>
  The loop over the names in the scratch directory: every name but \<^verbatim>\<open>repositories\<close> is
  taken for a layer directory.
\<close>

fun PushImage_layers ::
  "env \<Rightarrow> registry \<Rightarrow> world \<Rightarrow> string \<Rightarrow> string \<Rightarrow> string list \<Rightarrow> string list
     \<Rightarrow> (error + string list) \<times> world" where
  "PushImage_layers E reg w repoName tempDirPath layerDigests [] = (Inr layerDigests, w)"
| "PushImage_layers E reg w repoName tempDirPath layerDigests (layerFilename # rest) =
     (if layerFilename = ''repositories''
      then PushImage_layers E reg w repoName tempDirPath layerDigests rest
      else
        (let layerFilePath = tempDirPath @ ''/'' @ layerFilename @ ''/layer.tar'';
             ((layerDigest, err), w') = PushLayer E reg w layerFilePath repoName
         in case err of
              Some e \<Rightarrow> (Inl e, w')
            | None \<Rightarrow>
                PushImage_layers E reg w' repoName tempDirPath (layerDigests @ [layerDigest]) rest))"

text \<open>
  \<^verbatim>\<open>PushImage\<close>. The scratch directory is created first. Its removal is the last statement
  of the function, after the manifest was put; the \<^verbatim>\<open>defer os.RemoveAll(tempDirPath)\<close> that
  would run on every return is commented out in the source.
\<close>

definition PushImage ::
  "env \<Rightarrow> registry \<Rightarrow> world \<Rightarrow> string \<Rightarrow> string \<Rightarrow> string \<Rightarrow> error option \<times> world" where
  "PushImage E reg w repoName tag imageFilePath =
     (case MakeTempDir E w of
        Inl err \<Rightarrow> (Some err, w)
      | Inr tempDirPath \<Rightarrow>
          (let w0 = w\<lparr>fs := fs w @ [(tempDirPath, Dir)]\<rparr>
           in case os_Open w0 imageFilePath of
                Inl err \<Rightarrow> (Some err, w0)
              | Inr tarFile \<Rightarrow>
                  (case PushImage_unpack w0 tempDirPath
                          (fst (tar_Reader E tarFile)) (snd (tar_Reader E tarFile)) of
                     (Some err, w1) \<Rightarrow> (Some err, w1)
                   | (None, w1) \<Rightarrow>
                       (case os_Open w1 (tempDirPath @ ''/'' @ ''repositories'') of
                          Inl err \<Rightarrow> (Some err, w1)
                        | Inr indexBytes \<Rightarrow>
                            (case json_Unmarshal E indexBytes of
                               Inl err \<Rightarrow> (Some err, w1)
                             | Inr obj \<Rightarrow>
                                 (case PushImage_index obj of
                                    Inl err \<Rightarrow> (Some err, w1)
                                  | Inr imageDigest \<Rightarrow>
                                      (case Readdirnames w1 tempDirPath of
                                         Inl err \<Rightarrow> (Some err, w1)
                                       | Inr layerFilenames \<Rightarrow>
                                           (case PushImage_layers E reg w1 repoName tempDirPath []
                                                   layerFilenames of
                                              (Inl err, w2) \<Rightarrow> (Some err, w2)
                                            | (Inr layerDigests, w2) \<Rightarrow>
                                                (case PushManifest E reg w2 repoName tag
                                                        imageDigest layerDigests of
                                                   (Some err, w3) \<Rightarrow> (Some err, w3)
                                                 | (None, w3) \<Rightarrow>
                                                     (None, os_RemoveAll w3 tempDirPath))))))))))"

section \<open>Repository names\<close>

definition isLowerAlnum :: "char \<Rightarrow> bool" where
  "isLowerAlnum c =
     (let n = (of_char c :: nat) in (97 \<le> n \<and> n \<le> 122) \<or> (48 \<le> n \<and> n \<le> 57))"

text \<open>
  The pattern in the source is \<^verbatim>\<open>^[a-z0-9\-_]*$\<close>: any number of characters, each a
  lower-case letter, a digit, a dash or an underscore. In Go's \<^verbatim>\<open>regexp\<close>, \<^verbatim>\<open>$\<close> without the
  multi-line flag matches at the end of the text only, so the pattern matches exactly the
  strings made of such characters.
\<close>

definition regexp_MatchString :: "string \<Rightarrow> bool" where
  "regexp_MatchString part =
     list_all (\<lambda>c. isLowerAlnum c \<or> c = CHR ''-'' \<or> c = CHR ''_'') part"

text \<open>
  \<^verbatim>\<open>NamePartConformsToDockerRules\<close>; \<open>None\<close> is \<^verbatim>\<open>nil\<close>. The pattern is a constant that
  compiles, so the \<^verbatim>\<open>Unexpected internal error\<close> branch is never taken.
\<close>

definition NamePartConformsToDockerRules :: "string \<Rightarrow> error option" where
  "NamePartConformsToDockerRules part =
     (if \<not> regexp_MatchString part
      then Some (ServerError ''Name does not conform to docker rules'')
      else None)"

subsection \<open>The rules as documented\<close>

text \<open>
  The expression the comment above the function and the specification give for one path
  component, \<^verbatim>\<open>[a-z0-9]+(?:[._-][a-z0-9]+)*\<close>, as an automaton with two states: the flag
  says whether the character before was a letter or digit.
\<close>

fun documented_component_from :: "bool \<Rightarrow> string \<Rightarrow> bool" where
  "documented_component_from afterAlnum [] = afterAlnum"
| "documented_component_from afterAlnum (c # cs) =
     (if isLowerAlnum c then documented_component_from True cs
      else if (c = CHR ''.'' \<or> c = CHR ''_'' \<or> c = CHR ''-'') \<and> afterAlnum
      then documented_component_from False cs
      else False)"

definition documented_component :: "string \<Rightarrow> bool" where
  "documented_component part = documented_component_from False part"

fun splitOn :: "char \<Rightarrow> string \<Rightarrow> string list" where
  "splitOn sep [] = [[]]"
| "splitOn sep (c # cs) =
     (if c = sep then [] # splitOn sep cs
      else (case splitOn sep cs of
              [] \<Rightarrow> [[c]]
            | part # parts \<Rightarrow> (c # part) # parts))"

text \<open>
  The rule of the specification for a whole name: components separated by \<^verbatim>\<open>/\<close>, each as
  documented, and fewer than 256 characters in all.
\<close>

definition documented_name :: "string \<Rightarrow> bool" where
  "documented_name name =
     (length name < 256 \<and> list_all documented_component (splitOn CHR ''/'' name))"

section \<open>The manifest as documented\<close>

text \<open>
  The wire format the specification gives for a manifest: the name, the tag, and one
  \<^verbatim>\<open>blobSum\<close> object per digest, in the order of the digests. The objects are joined by a
  comma and a line feed.
\<close>

definition blobSum_entry :: "string \<Rightarrow> string" where
  \<open>blobSum_entry d = ''{"blobSum": "sha256:'' @ d @ ''"}''\<close>

fun joinWith :: "string \<Rightarrow> string list \<Rightarrow> string" where
  "joinWith sep [] = []"
| "joinWith sep [x] = x"
| "joinWith sep (x # y # rest) = x @ sep @ joinWith sep (y # rest)"

definition documented_manifest :: "string \<Rightarrow> string \<Rightarrow> string list \<Rightarrow> string" where
  \<open>documented_manifest repoName tag digests =
     ''{"name": "'' @ repoName @ ''", "tag": "'' @ tag @ ''", "fsLayers": [''
     @ joinWith [CHR '','', CHR 0x0A] (map blobSum_entry digests)
     @ '']}''\<close>

section \<open>Sample collaborators\<close>

text \<open>
  Concrete collaborators at which the operations are run below. \<open>sample_GenerateError\<close>
  takes the status codes from 200 to 299 for success; \<open>sample_hash\<close> stands in for
  SHA-256 and returns the bytes it is given.
\<close>

definition sample_GenerateError :: "int \<Rightarrow> string \<Rightarrow> error option" where
  "sample_GenerateError code msg =
     (if 200 \<le> code \<and> code < 300 then None else Some (ExternalError msg))"

definition sample_hash :: "string \<Rightarrow> string" where
  "sample_hash bs = bs"

definition sample_env ::
  "(request list \<Rightarrow> request \<Rightarrow> error + response) \<Rightarrow> (body \<Rightarrow> error + jmap) \<Rightarrow>
   (string \<Rightarrow> tar_entry list \<times> error option) \<Rightarrow> (string \<Rightarrow> error + json) \<Rightarrow> env" where
  "sample_env n parse untar unmarshal =
     \<lparr>net = n, GenerateError = sample_GenerateError, ParseResponseBodyToMap = parse,
      NewRequest_error = (\<lambda>m url. None), sha256_Sum = sample_hash,
      MakeTempDir = (\<lambda>w. Inr ''/tmp/scratch''), tar_Reader = untar,
      json_Unmarshal = unmarshal\<rparr>"

definition no_parse :: "body \<Rightarrow> error + jmap" where
  "no_parse b = Inl (ExternalError ''unexpected end of JSON input'')"

definition no_tar :: "string \<Rightarrow> tar_entry list \<times> error option" where
  "no_tar bs = ([], Some (ExternalError ''unexpected EOF''))"

definition no_json :: "string \<Rightarrow> error + json" where
  "no_json bs = Inl (ExternalError ''unexpected end of JSON input'')"

definition sample_response :: "int \<Rightarrow> string \<Rightarrow> (string \<times> string list) list \<Rightarrow> string \<Rightarrow> response" where
  "sample_response code reason hdrs b =
     \<lparr>StatusCode = code, Status = reason, Header = hdrs, Body = \<lparr>bytes = b, closed = False\<rparr>\<rparr>"

definition sample_registry :: registry where
  "sample_registry =
     \<lparr>scheme = ''http'', hostname = ''registry.local'', port = 5000, userId = ''user'',
      password = ''pass''\<rparr>"

definition empty_world :: world where
  "empty_world = \<lparr>fs = [], sent = []\<rparr>"

text \<open>A registry that answers every request with the same status and no headers.\<close>

definition always :: "int \<Rightarrow> string \<Rightarrow> request list \<Rightarrow> request \<Rightarrow> error + response" where
  "always code reason history req = Inr (sample_response code reason [] '''')"

section \<open>The status check as specified\<close>

text \<open>
  Modelled from the spec: \<^verbatim>\<open>utils.GenerateError\<close> belongs to the utilities package, which is
  not among the sources. The specification has a success status give no error, and any
  other status give a \<^verbatim>\<open>RegistryError\<close> that carries the status and the reason text. Success
  is taken to be the status codes from 200 to 299; the message is the one the caller
  passes, which every caller in this package starts with the status line of the response.
\<close>

definition is_success :: "int \<Rightarrow> bool" where
  "is_success code = (200 \<le> code \<and> code < 300)"

definition specified_GenerateError :: "int \<Rightarrow> string \<Rightarrow> error option" where
  "specified_GenerateError code msg =
     (if is_success code then None else Some (RegistryError code msg))"

text \<open>The sample collaborators with the status check as specified.\<close>

definition specified_env :: "(request list \<Rightarrow> request \<Rightarrow> error + response) \<Rightarrow> env" where
  "specified_env n =
     (sample_env n no_parse no_tar no_json)\<lparr>GenerateError := specified_GenerateError\<rparr>"

subsection \<open>Inputs at which the operations are run\<close>

text \<open>
  A registry that learns: it answers the HEAD probe with 404 until an upload was completed
  by a PUT and with 200 afterwards, the POST with 202 and one upload location, and a PUT or
  PATCH with 201.
\<close>

definition upload_registry :: "request list \<Rightarrow> request \<Rightarrow> error + response" where
  "upload_registry history req =
     (if reqMethod req = ''HEAD'' then
        (if list_ex (\<lambda>earlier. reqMethod earlier = ''PUT'') history
         then Inr (sample_response 200 ''200 OK'' [] '''')
         else Inr (sample_response 404 ''404 Not Found'' [] ''''))
      else if reqMethod req = ''POST'' then
        Inr (sample_response 202 ''202 Accepted''
               [(''Location'', [''http://registry.local:5000/v2/acme/app/blobs/uploads/u1?_state=s1''])]
               '''')
      else if reqMethod req = ''PUT'' \<or> reqMethod req = ''PATCH'' then
        Inr (sample_response 201 ''201 Created'' [] '''')
      else Inr (sample_response 405 ''405 Method Not Allowed'' [] ''''))"

text \<open>A scratch directory holding one layer of three bytes.\<close>

definition layer_world :: world where
  "layer_world =
     \<lparr>fs = [(''/tmp/scratch'', Dir), (''/tmp/scratch/l1'', Dir),
            (''/tmp/scratch/l1/layer.tar'', File ''abc'')],
      sent = []\<rparr>"

text \<open>
  A manifest response without a \<^verbatim>\<open>Docker-Content-Digest\<close> header, and the decoded body of
  a manifest with one well-formed layer.
\<close>

definition one_layer_manifest :: "body \<Rightarrow> error + jmap" where
  "one_layer_manifest b =
     Inr [(''name'', JString ''acme/app''), (''tag'', JString ''v1''),
          (''fsLayers'', JArray [JObject [(''blobSum'', JString ''sha256:0a1b'')]])]"


text \<open>
  An archive whose only entry is a \<^verbatim>\<open>repositories\<close> index, with the index empty, and with
  two repositories in it.
\<close>

definition index_only_tar :: "string \<Rightarrow> string \<Rightarrow> tar_entry list \<times> error option" where
  "index_only_tar index bs = ([\<lparr>entryName = ''repositories'', entryData = Inr index\<rparr>], None)"

definition two_repos_index :: string where
  \<open>two_repos_index = ''{"acme/app":{"v1":"d2cf"},"acme/web":{"v1":"77aa"}}''\<close>

definition two_tags_index :: string where
  \<open>two_tags_index = ''{"acme/app":{"v1":"d2cf","v2":"77aa"}}''\<close>

definition sample_Unmarshal :: "string \<Rightarrow> error + json" where
  "sample_Unmarshal bs =
     (if bs = ''{}'' then Inr (JObject [])
      else if bs = two_repos_index then
        Inr (JObject [(''acme/app'', JObject [(''v1'', JString ''d2cf'')]),
                      (''acme/web'', JObject [(''v1'', JString ''77aa'')])])
      else if bs = two_tags_index then
        Inr (JObject [(''acme/app'', JObject [(''v1'', JString ''d2cf''), (''v2'', JString ''77aa'')])])
      else Inl (ExternalError ''invalid character''))"

definition archive_world :: world where
  "archive_world = \<lparr>fs = [(''/in'', Dir), (''/in/image.tar'', File ''archive'')], sent = []\<rparr>"

text \<open>
  Two readings of \<^verbatim>\<open>rest.ParseResponseBodyToMap\<close> for a manifest without layers: one that
  fails on a body that was closed, as reading a closed \<^verbatim>\<open>net/http\<close> response body does, and
  one that decodes the body whether it was closed or not.
\<close>

definition parse_open_body :: "body \<Rightarrow> error + jmap" where
  "parse_open_body b =
     (if closed b then Inl (ExternalError ''http: read on closed response body'')
      else Inr [(''fsLayers'', JArray [])])"

definition parse_any_body :: "body \<Rightarrow> error + jmap" where
  "parse_any_body b = Inr [(''fsLayers'', JArray [])]"

text \<open>A registry that serves the manifest and answers every DELETE with status 500.\<close>

definition failing_delete_registry :: "request list \<Rightarrow> request \<Rightarrow> error + response" where
  "failing_delete_registry history req =
     (if reqMethod req = ''DELETE''
      then Inr (sample_response 500 ''500 Internal Server Error'' [] '''')
      else Inr (sample_response 200 ''200 OK'' [] ''{}''))"

text \<open>The world after the layer of \<open>layer_world\<close> was pushed once to \<open>upload_registry\<close>.\<close>

definition after_first_push :: world where
  "after_first_push =
     snd (PushLayer (sample_env upload_registry no_parse no_tar no_json) sample_registry
            layer_world ''/tmp/scratch/l1/layer.tar'' ''acme/app'')"





text \<open>
  A registry that keeps the blobs under the digest they were finalised with: it answers
  the HEAD probe of a blob path with 200 when an earlier PUT ended in
  \<^verbatim>\<open>&digest=<the last component of the probed path>\<close>, and with 404 otherwise; it answers the
  POST with 202 and one upload location, and a PUT or PATCH with 201.
\<close>

definition digest_keyed_registry :: "request list \<Rightarrow> request \<Rightarrow> error + response" where
  "digest_keyed_registry history req =
     (if reqMethod req = ''HEAD'' then
        (if list_ex (\<lambda>earlier. reqMethod earlier = ''PUT'' \<and>
                       HasSuffix (reqURL earlier) (''&digest='' @ baseName (reqURL req)))
              history
         then Inr (sample_response 200 ''200 OK'' [] '''')
         else Inr (sample_response 404 ''404 Not Found'' [] ''''))
      else if reqMethod req = ''POST'' then
        Inr (sample_response 202 ''202 Accepted''
               [(''Location'', [''http://registry.local:5000/v2/acme/app/blobs/uploads/u1?_state=s1''])]
               '''')
      else if reqMethod req = ''PUT'' \<or> reqMethod req = ''PATCH'' then
        Inr (sample_response 201 ''201 Created'' [] '''')
      else Inr (sample_response 405 ''405 Method Not Allowed'' [] ''''))"

text \<open>The world after the layer of \<open>layer_world\<close> was pushed once to that registry.\<close>

definition after_upload :: world where
  "after_upload =
     snd (PushLayer (sample_env digest_keyed_registry no_parse no_tar no_json) sample_registry
            layer_world ''/tmp/scratch/l1/layer.tar'' ''acme/app'')"


section \<open>Properties\<close>

declare showNat.simps [simp del]

subsection \<open>Existence probes\<close>

text \<open>
  What the probes do for any status check: one HEAD request, 404 answered with \<open>false\<close> and
  no error, and every other status handed to \<open>GenerateError\<close> with the status text.
\<close>

lemma probes_defer_to_GenerateError:
  "(net E (sent w) (basicRequest ''HEAD'' (''v2/'' @ repoName @ ''/manifests/'' @ tag)) = Inr r \<longrightarrow>
      ImageExists E w repoName tag =
        ((if StatusCode r = 404 then (False, None)
          else case GenerateError E (StatusCode r)
                      (Status r @ ''; while checking if image exists'') of
                 Some err \<Rightarrow> (False, Some err)
               | None \<Rightarrow> (True, None)),
         w\<lparr>sent := sent w @
              [basicRequest ''HEAD'' (''v2/'' @ repoName @ ''/manifests/'' @ tag)]\<rparr>))
   \<and>
   (net E (sent w) (basicRequest ''HEAD'' (''v2/'' @ repoName @ ''/blobs/'' @ digest)) = Inr r' \<longrightarrow>
      LayerExistsInRepo E w repoName digest =
        ((if StatusCode r' = 404 then (False, None)
          else case GenerateError E (StatusCode r')
                      (Status r' @ ''; while checking if layer exists'') of
                 Some err \<Rightarrow> (False, Some err)
               | None \<Rightarrow> (True, None)),
         w\<lparr>sent := sent w @
              [basicRequest ''HEAD'' (''v2/'' @ repoName @ ''/blobs/'' @ digest)]\<rparr>))"
  by (simp add: ImageExists_def LayerExistsInRepo_def SendBasicHead_def Do_def
        split: option.splits)

text \<open>
  Claim C7. With the status check as specified, both probes, \<open>ImageExists\<close> on the manifest
  path and \<open>LayerExistsInRepo\<close> on the blob path, send one HEAD request and map the answer
  of the registry as follows: status 404 gives \<open>false\<close> and no error; a success status gives
  \<open>true\<close> and no error; any other status gives \<open>false\<close> and an error that carries the status
  code and the status text of the response.
\<close>

theorem existence_probes:
  assumes "GenerateError E = specified_GenerateError"
  shows
  "(net E (sent w) (basicRequest ''HEAD'' (''v2/'' @ repoName @ ''/manifests/'' @ tag)) = Inr r \<longrightarrow>
      ImageExists E w repoName tag =
        ((if StatusCode r = 404 then (False, None)
          else if is_success (StatusCode r) then (True, None)
          else (False, Some (RegistryError (StatusCode r)
                               (Status r @ ''; while checking if image exists'')))),
         w\<lparr>sent := sent w @
              [basicRequest ''HEAD'' (''v2/'' @ repoName @ ''/manifests/'' @ tag)]\<rparr>))
   \<and>
   (net E (sent w) (basicRequest ''HEAD'' (''v2/'' @ repoName @ ''/blobs/'' @ digest)) = Inr r' \<longrightarrow>
      LayerExistsInRepo E w repoName digest =
        ((if StatusCode r' = 404 then (False, None)
          else if is_success (StatusCode r') then (True, None)
          else (False, Some (RegistryError (StatusCode r')
                               (Status r' @ ''; while checking if layer exists'')))),
         w\<lparr>sent := sent w @
              [basicRequest ''HEAD'' (''v2/'' @ repoName @ ''/blobs/'' @ digest)]\<rparr>))"
  using probes_defer_to_GenerateError [of E w repoName tag r digest r'] assms
  by (simp add: specified_GenerateError_def)

theorem existence_probes_witness:
  "GenerateError (specified_env (always 404 ''404 Not Found'')) = specified_GenerateError
   \<and> fst (ImageExists (specified_env (always 404 ''404 Not Found''))
          empty_world ''acme/app'' ''v1'') = (False, None)
   \<and> fst (LayerExistsInRepo (specified_env (always 404 ''404 Not Found''))
          empty_world ''acme/app'' ''0a1b'') = (False, None)
   \<and> fst (ImageExists (specified_env (always 500 ''500 Internal Server Error''))
          empty_world ''acme/app'' ''v1'') =
       (False, Some (RegistryError 500
                       ''500 Internal Server Error; while checking if image exists''))
   \<and> fst (LayerExistsInRepo (specified_env (always 500 ''500 Internal Server Error''))
          empty_world ''acme/app'' ''0a1b'') =
       (False, Some (RegistryError 500
                       ''500 Internal Server Error; while checking if layer exists''))
   \<and> fst (ImageExists (specified_env (always 200 ''200 OK''))
          empty_world ''acme/app'' ''v1'') = (True, None)
   \<and> fst (LayerExistsInRepo (specified_env (always 200 ''200 OK''))
          empty_world ''acme/app'' ''0a1b'') = (True, None)"
proof -
  have check: "\<And>n. GenerateError (specified_env n) = specified_GenerateError"
    by (simp add: specified_env_def sample_env_def)
  show ?thesis
    using
      existence_probes [OF check, of "always 404 ''404 Not Found''"
        empty_world "''acme/app''" "''v1''" "sample_response 404 ''404 Not Found'' [] ''''"
        "''0a1b''" "sample_response 404 ''404 Not Found'' [] ''''"]
      existence_probes [OF check, of "always 500 ''500 Internal Server Error''"
        empty_world "''acme/app''" "''v1''"
        "sample_response 500 ''500 Internal Server Error'' [] ''''"
        "''0a1b''" "sample_response 500 ''500 Internal Server Error'' [] ''''"]
      existence_probes [OF check, of "always 200 ''200 OK''"
        empty_world "''acme/app''" "''v1''" "sample_response 200 ''200 OK'' [] ''''"
        "''0a1b''" "sample_response 200 ''200 OK'' [] ''''"]
    by (simp add: check specified_env_def sample_env_def always_def sample_response_def
        is_success_def)
qed

subsection \<open>The published manifest\<close>

lemma joinWith_Cons:
  "joinWith sep (x # xs) = x @ concat (map (\<lambda>y. sep @ y) xs)"
  by (induction xs arbitrary: x) auto

lemma PushManifest_layers_later:
  "i > 0 \<Longrightarrow>
   PushManifest_layers manifest i ds =
     manifest @ concat (map (\<lambda>y. [CHR '','', CHR 0x0A] @ y) (map blobSum_entry ds))"
  by (induction ds arbitrary: manifest i) (auto simp: blobSum_entry_def)

lemma PushManifest_layers_first:
  "PushManifest_layers manifest 0 ds =
     manifest @ joinWith [CHR '','', CHR 0x0A] (map blobSum_entry ds)"
proof (cases ds)
  case Nil
  then show ?thesis by simp
next
  case (Cons d rest)
  have "PushManifest_layers manifest 0 (d # rest) =
          PushManifest_layers (manifest @ blobSum_entry d) 1 rest"
    by (simp add: blobSum_entry_def)
  also have "\<dots> = manifest @ blobSum_entry d
                 @ concat (map (\<lambda>y. [CHR '','', CHR 0x0A] @ y) (map blobSum_entry rest))"
    by (simp add: PushManifest_layers_later)
  also have "\<dots> = manifest @ joinWith [CHR '','', CHR 0x0A] (map blobSum_entry (d # rest))"
    by (simp add: joinWith_Cons)
  finally show ?thesis using Cons by simp
qed

lemma PushManifest_body_documented:
  "PushManifest_body repoName tag ds = documented_manifest repoName tag ds"
  by (simp add: PushManifest_body_def documented_manifest_def PushManifest_layers_first)

text \<open>
  Claim C9. For every repository name, tag and list of layer digests, of any length, the
  body \<open>PushManifest\<close> builds is the documented manifest: the name, the tag, and one
  \<^verbatim>\<open>{"blobSum": "sha256:<digest>"}\<close> object per supplied digest, in the supplied order (the
  objects are separated by a comma and a line feed, and name, tag and digests are inserted
  as they are). It is the body of the one PUT request the function hands to the HTTP client
  once the request could be built.
\<close>

theorem PushManifest_publishes_documented_manifest:
  "PushManifest_body repoName tag ds = documented_manifest repoName tag ds
   \<and> (NewRequest_error E ''PUT'' (PushManifest_url reg repoName tag) = None \<longrightarrow>
        sent (snd (PushManifest E reg w repoName tag imageDigestString ds)) =
          sent w @
          [\<lparr>reqMethod = ''PUT'', reqURL = PushManifest_url reg repoName tag,
            reqHeaders =
              [(''Content-Length'', showInt (int (length (documented_manifest repoName tag ds)))),
               (''Content-Type'', ''application/json; charset=utf-8''),
               (''Authorization'',
                ''Basic '' @ base64_EncodeToString (userId reg @ '':'' @ password reg))],
            reqBody = documented_manifest repoName tag ds\<rparr>])"
  by (simp add: PushManifest_body_documented PushManifest_def Do_def Let_def split: sum.splits)

theorem PushManifest_publishes_documented_manifest_witness:
  \<open>NewRequest_error (sample_env (always 201 ''201 Created'') no_parse no_tar no_json) ''PUT''
      (PushManifest_url sample_registry ''acme/app'' ''v1'') = None
   \<and> PushManifest_body ''acme/app'' ''v1'' [''0a'', ''1b''] =
       ''{"name": "acme/app", "tag": "v1", "fsLayers": [{"blobSum": "sha256:0a"},''
       @ [CHR 0x0A] @ ''{"blobSum": "sha256:1b"}]}''
   \<and> map reqBody
        (sent (snd (PushManifest (sample_env (always 201 ''201 Created'') no_parse no_tar no_json)
                      sample_registry empty_world ''acme/app'' ''v1'' ''d2cf'' [''0a'', ''1b'']))) =
       [''{"name": "acme/app", "tag": "v1", "fsLayers": [{"blobSum": "sha256:0a"},''
        @ [CHR 0x0A] @ ''{"blobSum": "sha256:1b"}]}'']\<close>
  using PushManifest_publishes_documented_manifest
    [where repoName = "''acme/app''" and tag = "''v1''" and ds = "[''0a'', ''1b'']"
       and E = "sample_env (always 201 ''201 Created'') no_parse no_tar no_json"
       and reg = sample_registry and w = empty_world and imageDigestString = "''d2cf''"]
  by (simp add: sample_env_def documented_manifest_def blobSum_entry_def empty_world_def)

text \<open>
  Claim C10. \<open>PushManifest\<close> returns the same error value and leaves the same world, and so
  hands the same PUT request with the same body to the HTTP client, for any two values of
  its \<open>imageDigestString\<close> argument when the other arguments are equal.
\<close>

theorem PushManifest_ignores_imageDigestString:
  "PushManifest E reg w repoName tag imageDigestString ds =
   PushManifest E reg w repoName tag imageDigestString' ds"
  by (simp add: PushManifest_def)

subsection \<open>Pushing a layer\<close>

lemma LayerExistsInRepo_world:
  "snd (LayerExistsInRepo E w repoName digest) =
     w\<lparr>sent := sent w @ [basicRequest ''HEAD'' (''v2/'' @ repoName @ ''/blobs/'' @ digest)]\<rparr>"
  by (simp add: LayerExistsInRepo_def SendBasicHead_def Do_def Let_def
        split: sum.splits option.splits)

text \<open>
  The short circuit. When the existence probe for the digest of the file's content answers
  \<open>true\<close> without error, \<open>PushLayer\<close> returns that digest and no error, and the only
  request it has sent is the HEAD probe: no POST, PATCH or PUT.
\<close>

theorem PushLayer_short_circuits_on_existing_layer:
  assumes "os_Open w layerFilePath = Inr content"
    and "fst (LayerExistsInRepo E w repoName (hex_EncodeToString (sha256_Sum E content))) =
           (True, None)"
  shows "PushLayer E reg w layerFilePath repoName =
           ((hex_EncodeToString (sha256_Sum E content), None),
            w\<lparr>sent := sent w @
                 [basicRequest ''HEAD''
                    (''v2/'' @ repoName @ ''/blobs/'' @
                     hex_EncodeToString (sha256_Sum E content))]\<rparr>)"
proof -
  let ?d = "hex_EncodeToString (sha256_Sum E content)"
  have "LayerExistsInRepo E w repoName ?d =
          ((True, None),
           w\<lparr>sent := sent w @ [basicRequest ''HEAD'' (''v2/'' @ repoName @ ''/blobs/'' @ ?d)]\<rparr>)"
    using assms(2) LayerExistsInRepo_world [of E w repoName ?d] by (simp add: prod_eq_iff)
  then show ?thesis
    using assms(1) by (simp add: PushLayer_def ComputeFileDigest_def Let_def)
qed

lemma first_push:
  "PushLayer (sample_env upload_registry no_parse no_tar no_json) sample_registry layer_world
      ''/tmp/scratch/l1/layer.tar'' ''acme/app'' =
   ((''616263'', None),
    layer_world\<lparr>sent :=
      [basicRequest ''HEAD'' ''v2/acme/app/blobs/616263'',
       basicRequest ''POST'' ''v2/acme/app/blobs/uploads/'',
       \<lparr>reqMethod = ''PUT'',
        reqURL = ''http://registry.local:5000/v2/acme/app/blobs/uploads/u1?_state=s1&digest=sha256:616263'',
        reqHeaders = [(''Content-Length'', ''3''), (''Content-Range'', ''0-2''),
                      (''Content-Type'', ''application/octet-stream''),
                      (''Authorization'', ''Basic dXNlcjpwYXNz'')],
        reqBody = ''abc''\<rparr>]\<rparr>)"
  by (simp add: PushLayer_def PushLayer_upload_def ComputeFileDigest_def os_Open_def
      layer_world_def sample_env_def sample_hash_def hex_EncodeToString_def hexByte_def
      LayerExistsInRepo_def SendBasicHead_def SendBasicFormPost_def Do_def basicRequest_def
      upload_registry_def sample_response_def sample_GenerateError_def sample_registry_def
      PushLayer_headers_def Let_def showInt_def showNat.simps b64_def base64_alphabet_def)

theorem PushLayer_short_circuits_on_existing_layer_witness:
  "fst (PushLayer (sample_env upload_registry no_parse no_tar no_json) sample_registry
          layer_world ''/tmp/scratch/l1/layer.tar'' ''acme/app'') = (''616263'', None)
   \<and> map reqMethod (sent after_first_push) = [''HEAD'', ''POST'', ''PUT'']
   \<and> os_Open after_first_push ''/tmp/scratch/l1/layer.tar'' = Inr ''abc''
   \<and> fst (LayerExistsInRepo (sample_env upload_registry no_parse no_tar no_json)
            after_first_push ''acme/app'' ''616263'') = (True, None)
   \<and> fst (PushLayer (sample_env upload_registry no_parse no_tar no_json) sample_registry
          after_first_push ''/tmp/scratch/l1/layer.tar'' ''acme/app'') = (''616263'', None)
   \<and> map reqMethod (sent (snd (PushLayer (sample_env upload_registry no_parse no_tar no_json)
          sample_registry after_first_push ''/tmp/scratch/l1/layer.tar'' ''acme/app''))) =
       [''HEAD'', ''POST'', ''PUT'', ''HEAD'']"
proof -
  let ?E = "sample_env upload_registry no_parse no_tar no_json"
  have opened: "os_Open after_first_push ''/tmp/scratch/l1/layer.tar'' = Inr ''abc''"
    unfolding after_first_push_def first_push
    by (simp add: os_Open_def layer_world_def)
  have digest: "hex_EncodeToString (sha256_Sum ?E ''abc'') = ''616263''"
    by (simp add: sample_env_def sample_hash_def hex_EncodeToString_def hexByte_def)
  have probe: "fst (LayerExistsInRepo ?E after_first_push ''acme/app''
                      (hex_EncodeToString (sha256_Sum ?E ''abc''))) = (True, None)"
    unfolding digest after_first_push_def first_push
    by (simp add: LayerExistsInRepo_def SendBasicHead_def
        Do_def sample_env_def upload_registry_def basicRequest_def sample_response_def
        sample_GenerateError_def layer_world_def Let_def)
  show ?thesis
    using PushLayer_short_circuits_on_existing_layer [OF opened probe, of sample_registry]
      opened probe
    unfolding digest after_first_push_def first_push
    by (simp add: basicRequest_def layer_world_def)
qed

text \<open>
  Whatever else happens, the digest \<open>PushLayer\<close> returns for a readable file is the
  hexadecimal form of the hash of its content: two pushes of the same content return the
  same digest.
\<close>

lemma PushLayer_digest_of_content:
  "os_Open w layerFilePath = Inr content \<Longrightarrow>
   fst (fst (PushLayer E reg w layerFilePath repoName)) = hex_EncodeToString (sha256_Sum E content)"
  by (auto simp: PushLayer_def PushLayer_upload_def ComputeFileDigest_def Let_def
      split: sum.splits option.splits prod.splits if_splits)

lemma first_keyed_push:
  "PushLayer (sample_env digest_keyed_registry no_parse no_tar no_json) sample_registry layer_world
      ''/tmp/scratch/l1/layer.tar'' ''acme/app'' =
   ((''616263'', None),
    layer_world\<lparr>sent :=
      [basicRequest ''HEAD'' ''v2/acme/app/blobs/616263'',
       basicRequest ''POST'' ''v2/acme/app/blobs/uploads/'',
       \<lparr>reqMethod = ''PUT'',
        reqURL = ''http://registry.local:5000/v2/acme/app/blobs/uploads/u1?_state=s1&digest=sha256:616263'',
        reqHeaders = [(''Content-Length'', ''3''), (''Content-Range'', ''0-2''),
                      (''Content-Type'', ''application/octet-stream''),
                      (''Authorization'', ''Basic dXNlcjpwYXNz'')],
        reqBody = ''abc''\<rparr>]\<rparr>)"
  by (simp add: PushLayer_def PushLayer_upload_def ComputeFileDigest_def os_Open_def
      layer_world_def sample_env_def sample_hash_def hex_EncodeToString_def hexByte_def
      LayerExistsInRepo_def SendBasicHead_def SendBasicFormPost_def Do_def basicRequest_def
      digest_keyed_registry_def sample_response_def sample_GenerateError_def sample_registry_def
      PushLayer_headers_def Let_def showInt_def showNat.simps b64_def base64_alphabet_def)

text \<open>
  Claim C8. The claim asks that a second push of the same content stops at the existence
  check and sends no POST, PATCH or PUT. \<open>PushLayer\<close> probes the blob path with the bare
  hexadecimal digest, but finalises the upload under \<^verbatim>\<open>sha256:<hex>\<close>. Here the same layer is
  pushed twice to a registry that keeps a blob under the digest it was finalised with.
  After the first push the registry has the blob under \<^verbatim>\<open>sha256:616263\<close>, yet the probe
  \<open>PushLayer\<close> sends, for \<^verbatim>\<open>616263\<close>, is answered with 404: the second push returns the same
  digest but repeats the whole upload, HEAD, POST and PUT.
\<close>

theorem PushLayer_second_push_repeats_upload:
  "fst (PushLayer (sample_env digest_keyed_registry no_parse no_tar no_json) sample_registry
          layer_world ''/tmp/scratch/l1/layer.tar'' ''acme/app'') = (''616263'', None)
   \<and> map reqMethod (sent after_upload) = [''HEAD'', ''POST'', ''PUT'']
   \<and> fst (LayerExistsInRepo (sample_env digest_keyed_registry no_parse no_tar no_json)
            after_upload ''acme/app'' ''sha256:616263'') = (True, None)
   \<and> fst (LayerExistsInRepo (sample_env digest_keyed_registry no_parse no_tar no_json)
            after_upload ''acme/app'' ''616263'') = (False, None)
   \<and> fst (PushLayer (sample_env digest_keyed_registry no_parse no_tar no_json) sample_registry
          after_upload ''/tmp/scratch/l1/layer.tar'' ''acme/app'') = (''616263'', None)
   \<and> map reqMethod
        (sent (snd (PushLayer (sample_env digest_keyed_registry no_parse no_tar no_json)
                      sample_registry after_upload ''/tmp/scratch/l1/layer.tar'' ''acme/app''))) =
       [''HEAD'', ''POST'', ''PUT'', ''HEAD'', ''POST'', ''PUT'']"
  unfolding after_upload_def first_keyed_push
  by (simp add: PushLayer_def PushLayer_upload_def ComputeFileDigest_def os_Open_def
      layer_world_def sample_env_def sample_hash_def hex_EncodeToString_def hexByte_def
      LayerExistsInRepo_def SendBasicHead_def SendBasicFormPost_def Do_def basicRequest_def
      digest_keyed_registry_def sample_response_def sample_GenerateError_def sample_registry_def
      PushLayer_headers_def Let_def showInt_def showNat.simps b64_def base64_alphabet_def
      HasSuffix_def baseName_def)

lemma PushLayer_requests_are_never_PATCH:
  "\<exists>new. sent (snd (PushLayer E reg w layerFilePath repoName)) = sent w @ new
         \<and> list_all (\<lambda>req. reqMethod req \<noteq> ''PATCH'') new"
  by (auto simp: PushLayer_def PushLayer_upload_def ComputeFileDigest_def LayerExistsInRepo_def
      SendBasicHead_def SendBasicFormPost_def Do_def basicRequest_def Let_def
      split: sum.splits option.splits prod.splits if_splits)

text \<open>
  Claim C1. The claim asks that a push that goes past the existence check sends the layer
  in a PATCH request to the upload location before the final PUT. Here a layer of three
  bytes is pushed to a registry that does not have it and that hands out one upload
  location: \<open>PushLayer\<close> succeeds, and the requests it has sent are a HEAD, a POST and a PUT
  carrying the three bytes. No PATCH request is sent.
\<close>

theorem PushLayer_sends_HEAD_POST_PUT_only:
  "fst (PushLayer (sample_env upload_registry no_parse no_tar no_json) sample_registry
          layer_world ''/tmp/scratch/l1/layer.tar'' ''acme/app'') = (''616263'', None)
   \<and> map reqMethod
        (sent (snd (PushLayer (sample_env upload_registry no_parse no_tar no_json)
                      sample_registry layer_world ''/tmp/scratch/l1/layer.tar'' ''acme/app''))) =
       [''HEAD'', ''POST'', ''PUT'']
   \<and> map reqBody
        (sent (snd (PushLayer (sample_env upload_registry no_parse no_tar no_json)
                      sample_registry layer_world ''/tmp/scratch/l1/layer.tar'' ''acme/app''))) =
       ['''', '''', ''abc'']"
  unfolding first_push by (simp add: basicRequest_def layer_world_def)

subsection \<open>Reading a manifest\<close>

lemma GetImageInfo_without_digest_header:
  assumes "net E (sent w) (basicRequest ''GET'' (''v2/'' @ repoName @ ''/manifests/'' @ tag)) =
             Inr resp"
    and "GenerateError E (StatusCode resp) (Status resp @ ''; while getting image info'') = None"
    and "parseManifest E (Body resp) = Ok layerAr"
    and "map_of (Header resp) ''Docker-Content-Digest'' = None"
  shows "fst (GetImageInfo E w repoName tag) = Panic ''index out of range''"
  using assms by (simp add: GetImageInfo_def SendBasicGet_def Do_def)

text \<open>
  Claim C2. The claim asks that a manifest response without a \<^verbatim>\<open>Docker-Content-Digest\<close>
  header gives an absent digest and no failure. Here the registry answers the GET with
  status 200, a well-formed manifest of one layer and no headers: \<open>GetImageInfo\<close> does not
  return, it panics on the index into the empty value list.
\<close>

theorem GetImageInfo_panics_without_digest_header:
  "fst (GetImageInfo (sample_env (always 200 ''200 OK'') one_layer_manifest no_tar no_json)
          empty_world ''acme/app'' ''v1'') = Panic ''index out of range''"
  by (simp add: GetImageInfo_def SendBasicGet_def Do_def sample_env_def always_def
      sample_response_def sample_GenerateError_def parseManifest_def one_layer_manifest_def
      empty_world_def)






subsection \<open>Repository names\<close>

text \<open>
  Claim C4. The claim asks that a name is accepted exactly when its components match
  \<^verbatim>\<open>[a-z0-9]+(?:[._-][a-z0-9]+)*\<close> and it is shorter than 256 characters, which is also what
  the comment above \<open>NamePartConformsToDockerRules\<close> says of one component. The function
  differs both ways: it rejects \<^verbatim>\<open>a.b\<close>, which the documented rule accepts, and it accepts
  a single dash and the empty string, which the documented rule rejects.
\<close>

theorem NamePartConformsToDockerRules_differs_from_documented_rule:
  "NamePartConformsToDockerRules ''a.b'' =
     Some (ServerError ''Name does not conform to docker rules'')
   \<and> documented_component ''a.b'' \<and> documented_name ''a.b''
   \<and> NamePartConformsToDockerRules ''-'' = None
   \<and> \<not> documented_component ''-'' \<and> \<not> documented_name ''-''
   \<and> NamePartConformsToDockerRules '''' = None
   \<and> \<not> documented_component '''' \<and> \<not> documented_name ''''"
  by (simp add: NamePartConformsToDockerRules_def regexp_MatchString_def isLowerAlnum_def
      documented_name_def documented_component_def)

subsection \<open>Pushing an image archive\<close>

text \<open>
  The index checks reject every repository map and every tag map that does not have
  exactly one entry.
\<close>

lemma PushImage_index_rejects_repo_count:
  assumes "length (entries repositoriesMap) \<noteq> 1"
  shows "\<exists>msg. PushImage_index (JObject repositoriesMap) = Inl (ServerError msg)"
proof (cases "length (entries repositoriesMap) = 0")
  case True
  then show ?thesis by simp
next
  case False
  with assms have "length (entries repositoriesMap) > 1" by arith
  then show ?thesis by simp
qed

lemma PushImage_index_rejects_tag_count:
  assumes "entries repositoriesMap = [(rName, JObject tagMap)]"
    and "length (entries tagMap) \<noteq> 1"
  shows "\<exists>msg. PushImage_index (JObject repositoriesMap) = Inl (ServerError msg)"
proof (cases "length (entries tagMap) = 0")
  case True
  then show ?thesis using assms(1) by simp
next
  case False
  with assms(2) have "length (entries tagMap) > 1" by arith
  then show ?thesis using assms(1) by simp
qed

text \<open>
  None of the steps of \<open>PushImage\<close> before the final \<^verbatim>\<open>os.RemoveAll\<close> removes a directory:
  whenever \<open>PushImage\<close> returns an error after it created a fresh scratch directory, that
  directory is still there.
\<close>

lemma map_of_map_keeps_Dir:
  assumes "map_of xs t = Some Dir"
    and "\<And>p n. fst (f (p, n)) = p"
    and "\<And>p. f (p, Dir) = (p, Dir)"
  shows "map_of (map f xs) t = Some Dir"
  using assms(1)
proof (induction xs)
  case Nil
  then show ?case by simp
next
  case (Cons kv xs)
  obtain k v where kv: "kv = (k, v)" by (cases kv)
  show ?case
  proof (cases "k = t")
    case True
    with Cons.prems kv have "v = Dir" by simp
    with True kv assms(3) [of t] show ?thesis by simp
  next
    case False
    obtain k' v' where f: "f (k, v) = (k', v')" by (cases "f (k, v)")
    with assms(2) [of k v] have "k' = k" by simp
    with False f kv Cons show ?thesis by simp
  qed
qed

lemma os_Mkdir_keeps:
  "os_Mkdir w name = Inr w' \<Longrightarrow> map_of (fs w) t = Some Dir \<Longrightarrow> map_of (fs w') t = Some Dir"
  by (auto simp: os_Mkdir_def Let_def map_add_def split: option.splits node.splits)

lemma os_OpenFile_keeps:
  "os_OpenFile w name = Inr w' \<Longrightarrow> map_of (fs w) t = Some Dir \<Longrightarrow> map_of (fs w') t = Some Dir"
  by (auto simp: os_OpenFile_def Let_def map_add_def split: option.splits node.splits)

lemma io_Copy_keeps:
  "map_of (fs w) t = Some Dir \<Longrightarrow> map_of (fs (io_Copy w filename data)) t = Some Dir"
  by (simp add: io_Copy_def) (rule map_of_map_keeps_Dir, auto split: node.splits)

lemma PushImage_unpack_keeps:
  "map_of (fs w) t = Some Dir \<Longrightarrow>
   map_of (fs (snd (PushImage_unpack w tempDirPath es tarErr))) t = Some Dir"
proof (induction es arbitrary: w)
  case Nil
  then show ?case by simp
next
  case (Cons e es)
  show ?case
  proof (cases "HasSuffix (entryName e) ''/''")
    case True
    then show ?thesis
      using Cons.prems Cons.IH os_Mkdir_keeps
      by (auto simp: Let_def split: sum.splits)
  next
    case False
    show ?thesis
    proof (cases "entryName e = ''repositories'' \<or> HasSuffix (entryName e) ''/layer.tar''")
      case True
      show ?thesis
      proof (cases "os_OpenFile w (tempDirPath @ ''/'' @ entryName e)")
        case (Inl err)
        then show ?thesis using False True Cons.prems by (simp add: Let_def)
      next
        case (Inr w1)
        then have w1: "map_of (fs w1) t = Some Dir"
          using os_OpenFile_keeps Cons.prems by blast
        show ?thesis
        proof (cases "entryData e")
          case (Inl err)
          then show ?thesis using False True Inr w1 by (simp add: Let_def)
        next
          case data: (Inr data)
          have "map_of (fs (io_Copy w1 (tempDirPath @ ''/'' @ entryName e) data)) t = Some Dir"
            using w1 by (rule io_Copy_keeps)
          then show ?thesis
            using False True Inr data Cons.IH by (auto simp: Let_def)
        qed
      qed
    next
      case other: False
      then show ?thesis using False Cons.prems Cons.IH by (simp add: Let_def)
    qed
  qed
qed

lemma PushLayer_fs: "fs (snd (PushLayer E reg w layerFilePath repoName)) = fs w"
  by (auto simp: PushLayer_def PushLayer_upload_def ComputeFileDigest_def LayerExistsInRepo_def
      SendBasicHead_def SendBasicFormPost_def Do_def Let_def
      split: sum.splits option.splits prod.splits if_splits)

lemma PushImage_layers_fs:
  "fs (snd (PushImage_layers E reg w repoName tempDirPath layerDigests names)) = fs w"
proof (induction names arbitrary: w layerDigests)
  case Nil
  then show ?case by simp
next
  case (Cons name names)
  show ?case
  proof (cases "name = ''repositories''")
    case True
    then show ?thesis using Cons.IH by simp
  next
    case False
    obtain d err w' where push:
      "PushLayer E reg w (tempDirPath @ ''/'' @ name @ ''/layer.tar'') repoName = ((d, err), w')"
      by (metis prod.exhaust)
    then have "fs w' = fs w"
      using PushLayer_fs [of E reg w "tempDirPath @ ''/'' @ name @ ''/layer.tar''" repoName]
      by simp
    then show ?thesis
      using False push Cons.IH [of w' "layerDigests @ [d]"]
      by (cases err) simp_all
  qed
qed

lemma PushManifest_fs:
  "fs (snd (PushManifest E reg w repoName tag imageDigestString ds)) = fs w"
  by (simp add: PushManifest_def Do_def Let_def split: option.splits sum.splits)

lemma PushImage_error_keeps_scratch_directory:
  assumes "MakeTempDir E w = Inr t"
    and "map_of (fs w) t = None"
    and "fst (PushImage E reg w repoName tag imageFilePath) = Some err"
  shows "map_of (fs (snd (PushImage E reg w repoName tag imageFilePath))) t = Some Dir"
proof -
  let ?w0 = "w\<lparr>fs := fs w @ [(t, Dir)]\<rparr>"
  have w0: "map_of (fs ?w0) t = Some Dir"
    using assms(2) by (simp add: map_add_def)
  show ?thesis
  proof (cases "os_Open ?w0 imageFilePath")
    case (Inl e)
    then show ?thesis using assms(1) w0 by (simp add: PushImage_def)
  next
    case (Inr tarFile)
    obtain r w1 where unpack:
      "PushImage_unpack ?w0 t (fst (tar_Reader E tarFile)) (snd (tar_Reader E tarFile)) = (r, w1)"
      by (metis prod.exhaust)
    have w1: "map_of (fs w1) t = Some Dir"
      using PushImage_unpack_keeps [OF w0, of t "fst (tar_Reader E tarFile)" "snd (tar_Reader E tarFile)"]
        unpack by simp
    show ?thesis
    proof (cases r)
      case (Some e)
      then show ?thesis using assms(1) Inr unpack w1 by (simp add: PushImage_def)
    next
      case None
      note head = assms(1) Inr unpack None
      show ?thesis
      proof (cases "os_Open w1 (t @ ''/'' @ ''repositories'')")
        case (Inl e)
        then show ?thesis using head w1 by (simp add: PushImage_def)
      next
        case idx: (Inr indexBytes)
        show ?thesis
        proof (cases "json_Unmarshal E indexBytes")
          case (Inl e)
          then show ?thesis using head idx w1 by (simp add: PushImage_def)
        next
          case obj: (Inr obj)
          show ?thesis
          proof (cases "PushImage_index obj")
            case (Inl e)
            then show ?thesis using head idx obj w1 by (simp add: PushImage_def)
          next
            case img: (Inr imageDigest)
            show ?thesis
            proof (cases "Readdirnames w1 t")
              case (Inl e)
              then show ?thesis using head idx obj img w1 by (simp add: PushImage_def)
            next
              case names: (Inr layerFilenames)
              obtain lr w2 where layers:
                "PushImage_layers E reg w1 repoName t [] layerFilenames = (lr, w2)"
                by (metis prod.exhaust)
              have w2: "map_of (fs w2) t = Some Dir"
                using PushImage_layers_fs [of E reg w1 repoName t "[]" layerFilenames] layers w1
                by simp
              show ?thesis
              proof (cases lr)
                case (Inl e)
                then show ?thesis
                  using head idx obj img names layers w2 by (simp add: PushImage_def)
              next
                case digests: (Inr layerDigests)
                obtain mr w3 where manifest:
                  "PushManifest E reg w2 repoName tag imageDigest layerDigests = (mr, w3)"
                  by (metis prod.exhaust)
                have w3: "map_of (fs w3) t = Some Dir"
                  using PushManifest_fs [of E reg w2 repoName tag imageDigest layerDigests]
                    manifest w2 by simp
                show ?thesis
                proof (cases mr)
                  case None
                  then have "fst (PushImage E reg w repoName tag imageFilePath) = None"
                    using head idx obj img names layers digests manifest
                    by (simp add: PushImage_def)
                  with assms(3) show ?thesis by simp
                next
                  case (Some e)
                  then show ?thesis
                    using head idx obj img names layers digests manifest w3
                    by (simp add: PushImage_def)
                qed
              qed
            qed
          qed
        qed
      qed
    qed
  qed
qed

text \<open>
  Claim C5. The claim asks that an archive whose index has no entry, or more than one, in
  the repository map or in the tag map is rejected, and that the scratch directory is
  released on that return. The archives here hold an index with no repository, with two
  repositories, and with two tags. Each is rejected with an error, but in the world
  \<open>PushImage\<close> leaves behind the scratch directory and the index file written into it are
  still there.
\<close>

theorem PushImage_rejects_index_and_keeps_scratch_directory:
  "PushImage (sample_env (always 200 ''200 OK'') no_parse (index_only_tar ''{}'') sample_Unmarshal)
     sample_registry archive_world ''acme/app'' ''v1'' ''/in/image.tar'' =
     (Some (ServerError ''No entries found in repository map for image''),
      archive_world\<lparr>fs := fs archive_world @
         [(''/tmp/scratch'', Dir), (''/tmp/scratch/repositories'', File ''{}'')]\<rparr>)
   \<and> PushImage (sample_env (always 200 ''200 OK'') no_parse (index_only_tar two_repos_index)
        sample_Unmarshal)
     sample_registry archive_world ''acme/app'' ''v1'' ''/in/image.tar'' =
     (Some (ServerError ''More than one entry found in repository map for image''),
      archive_world\<lparr>fs := fs archive_world @
         [(''/tmp/scratch'', Dir), (''/tmp/scratch/repositories'', File two_repos_index)]\<rparr>)
   \<and> PushImage (sample_env (always 200 ''200 OK'') no_parse (index_only_tar two_tags_index)
        sample_Unmarshal)
     sample_registry archive_world ''acme/app'' ''v1'' ''/in/image.tar'' =
     (Some (ServerError ''More than one entry found in tag map for repo''),
      archive_world\<lparr>fs := fs archive_world @
         [(''/tmp/scratch'', Dir), (''/tmp/scratch/repositories'', File two_tags_index)]\<rparr>)"
  by (simp add: PushImage_def sample_env_def archive_world_def os_Open_def index_only_tar_def
      HasSuffix_def os_OpenFile_def parentDir_def io_Copy_def sample_Unmarshal_def
      two_repos_index_def two_tags_index_def)

subsection \<open>Deleting an image\<close>

lemma DeleteImage_manifest_delete_status_unchecked:
  assumes "net E (sent w) (basicRequest ''GET'' (''v2/'' @ repoName @ ''/manifests/'' @ tag)) = Inr resp"
    and "GenerateError E (StatusCode resp) (Status resp @ ''; while deleting image'') = None"
    and "parseManifest E ((Body resp)\<lparr>closed := True\<rparr>) = Ok layerAr"
    and "DeleteImage_layers E
           (w\<lparr>sent := sent w @ [basicRequest ''GET'' (''v2/'' @ repoName @ ''/manifests/'' @ tag)]\<rparr>)
           repoName layerAr = (None, w2)"
    and "net E (sent w2) (basicRequest ''DELETE'' (''v2/'' @ repoName @ ''/manifests/'' @ tag)) = Inr resp'"
  shows "fst (DeleteImage E w repoName tag) = Ok ()"
  using assms by (simp add: DeleteImage_def SendBasicGet_def SendBasicDelete_def Do_def Let_def)

text \<open>
  Claim C6. The claim asks that \<open>DeleteImage\<close> gets the manifest, deletes every layer, then
  deletes the manifest, and that a non-success status on any DELETE ends it with an error.
  Here the manifest has no layers and the registry answers every DELETE with status 500.
  With a body decoder that still reads the manifest after the body was closed,
  \<open>DeleteImage\<close> sends the DELETE for the manifest and returns no error although the
  answer was 500. With a decoder that fails on a closed body, \<open>DeleteImage\<close> returns the
  read error after the GET and sends no DELETE at all.
\<close>

theorem DeleteImage_ignores_manifest_delete_status:
  "DeleteImage (sample_env failing_delete_registry parse_any_body no_tar no_json)
     empty_world ''acme/app'' ''v1'' =
     (Ok (),
      empty_world\<lparr>sent := [basicRequest ''GET'' ''v2/acme/app/manifests/v1'',
                             basicRequest ''DELETE'' ''v2/acme/app/manifests/v1'']\<rparr>)
   \<and> DeleteImage (sample_env failing_delete_registry parse_open_body no_tar no_json)
     empty_world ''acme/app'' ''v1'' =
     (Err (ExternalError ''http: read on closed response body''),
      empty_world\<lparr>sent := [basicRequest ''GET'' ''v2/acme/app/manifests/v1'']\<rparr>)"
  by (simp add: DeleteImage_def SendBasicGet_def SendBasicDelete_def Do_def sample_env_def
      failing_delete_registry_def sample_response_def sample_GenerateError_def parseManifest_def
      parse_any_body_def parse_open_body_def empty_world_def basicRequest_def)

end
